theory Spec2Isabelle
  imports Main
begin

section \<open>Python values, exceptions and results\<close>

text \<open>
  The module \<^verbatim>\<open>thoth/python/package_version.py\<close> defines one class,
  \<^verbatim>\<open>PackageVersion\<close>. Its attributes are declared with \<^verbatim>\<open>attr.ib(type=...)\<close>,
  which records a type but validates nothing, and several of them are filled from the
  values of a Pipfile or Pipfile.lock dictionary. The values that such a dictionary holds
  are modelled by \<open>pyval\<close>: \<^verbatim>\<open>None\<close>, a string, or a list of strings. Strings are
  \<open>char list\<close>, a character standing for a code point below 256. On this universe HOL
  equality is Python's \<^verbatim>\<open>==\<close>.
\<close>

datatype pyval = VNone | VStr string | VList "string list"

text \<open>
  The exceptions the module raises or lets escape. \<^verbatim>\<open>InternalError\<close>,
  \<^verbatim>\<open>PipfileParseError\<close> and \<^verbatim>\<open>UnsupportedConfiguration\<close> come from the package's
  \<^verbatim>\<open>exceptions\<close> module and are taken to be classes of their own, none of them a
  subclass of \<^verbatim>\<open>ValueError\<close>; the others are Python's built-in ones.
\<close>

datatype exn =
    InternalError
  | PipfileParseError
  | UnsupportedConfiguration
  | ValueError
  | KeyError
  | AttributeError
  | TypeError

text \<open>A call either raises (\<open>Inl\<close>) or returns (\<open>Inr\<close>).\<close>

type_synonym 'a result = "exn + 'a"

text \<open>Python's truth value of an object: \<^verbatim>\<open>bool(v)\<close>.\<close>

fun truthy :: "pyval \<Rightarrow> bool" where
  "truthy VNone = False"
| "truthy (VStr s) = (s \<noteq> [])"
| "truthy (VList xs) = (xs \<noteq> [])"

text \<open>\<^verbatim>\<open>s.startswith(p)\<close> on strings.\<close>

definition startswith :: "string \<Rightarrow> string \<Rightarrow> bool" where
  "startswith s p = (take (length p) s = p)"

section \<open>The data model\<close>

text \<open>
  Modelled from the spec: the class \<^verbatim>\<open>Source\<close> (module \<^verbatim>\<open>source\<close>) is a package
  index with a \<^verbatim>\<open>url\<close> and a symbolic \<^verbatim>\<open>name\<close>. It defines no truth value of its
  own, so an instance is true and only \<^verbatim>\<open>None\<close> is false.
\<close>

record Source =
  url :: string
  source_name :: string

text \<open>
  Modelled from the spec: a parsed semantic version of the external library
  \<^verbatim>\<open>semantic_version\<close>: three numbers, the pre-release identifiers and the build
  identifiers.
\<close>

record Version =
  major :: nat
  minor :: nat
  patch :: nat
  prerelease :: "string list"
  build :: "string list"

text \<open>
  Modelled from the spec: a parsed version-range specification (\<^verbatim>\<open>semver.Spec\<close>) of
  the same library. The module only stores it, so nothing but its identity is needed.
\<close>

typedecl Spec

text \<open>
  The class itself. \<^verbatim>\<open>_semantic_version\<close> and \<^verbatim>\<open>_version_spec\<close> are the two
  memoized attributes; \<open>index\<close> defaults to \<^verbatim>\<open>None\<close>, \<open>hashes\<close> to the empty list
  and \<open>markers\<close> to \<^verbatim>\<open>None\<close>.
\<close>

record PackageVersion =
  name :: string
  version :: pyval
  develop :: bool
  index :: "Source option"
  hashes :: pyval
  markers :: pyval
  cached_semantic_version :: "Version option"
  cached_version_spec :: "Spec option"

text \<open>The constructor with the defaults of the attribute declarations.\<close>

definition new_PackageVersion ::
  "string \<Rightarrow> pyval \<Rightarrow> bool \<Rightarrow> Source option \<Rightarrow> pyval \<Rightarrow> pyval \<Rightarrow> PackageVersion" where
  "new_PackageVersion n v d i h m =
     \<lparr>name = n, version = v, develop = d, index = i, hashes = h, markers = m,
      cached_semantic_version = None, cached_version_spec = None\<rparr>"

section \<open>Locking\<close>

text \<open>
  \<^verbatim>\<open>is_locked\<close>: \<^verbatim>\<open>self.version.startswith("==")\<close>. A version that is not a string has
  no such method.
\<close>

definition is_locked :: "PackageVersion \<Rightarrow> bool result" where
  "is_locked self =
     (case version self of
        VStr s \<Rightarrow> Inr (startswith s ''=='')
      | _ \<Rightarrow> Inl AttributeError)"

text \<open>
  \<^verbatim>\<open>locked_version\<close>: raises \<^verbatim>\<open>InternalError\<close> unless locked, else
  \<^verbatim>\<open>self.version[len("=="):]\<close>.
\<close>

definition locked_version :: "PackageVersion \<Rightarrow> string result" where
  "locked_version self =
     (case is_locked self of
        Inl e \<Rightarrow> Inl e
      | Inr b \<Rightarrow>
          if \<not> b then Inl InternalError
          else (case version self of
                  VStr s \<Rightarrow> Inr (drop (length ''=='') s)
                | _ \<Rightarrow> Inl TypeError))"

text \<open>
  \<^verbatim>\<open>negate_version\<close> is the one method that assigns to \<open>version\<close>: it returns the
  outcome together with the object after the call. The exception is raised before the
  assignment.
\<close>

definition negate_version :: "PackageVersion \<Rightarrow> unit result \<times> PackageVersion" where
  "negate_version self =
     (case is_locked self of
        Inl e \<Rightarrow> (Inl e, self)
      | Inr b \<Rightarrow>
          if \<not> b then (Inl InternalError, self)
          else (case version self of
                  VStr s \<Rightarrow> (Inr (), self\<lparr>version := VStr (''!'' @ drop 1 s)\<rparr>)
                | _ \<Rightarrow> (Inl TypeError, self)))"

section \<open>Strings\<close>

text \<open>Characters are compared by their code points.\<close>

definition char_code :: "char \<Rightarrow> nat" where
  "char_code c = of_char c"

definition is_digit :: "char \<Rightarrow> bool" where
  "is_digit c = (48 \<le> char_code c \<and> char_code c \<le> 57)"

definition is_alpha :: "char \<Rightarrow> bool" where
  "is_alpha c =
     ((65 \<le> char_code c \<and> char_code c \<le> 90) \<or> (97 \<le> char_code c \<and> char_code c \<le> 122))"

text \<open>
  The white space that \<^verbatim>\<open>int\<close> strips from a string: tab, line feed, vertical tab,
  form feed, carriage return and the space, and the two characters above the ASCII range
  that are white space, \<^verbatim>\<open>\x85\<close> and \<^verbatim>\<open>\xa0\<close>, which \<^verbatim>\<open>int\<close> turns into spaces
  before it reads the number. The separators \<^verbatim>\<open>\x1c\<close> to \<^verbatim>\<open>\x1f\<close> are not stripped.
\<close>

definition is_space :: "char \<Rightarrow> bool" where
  "is_space c =
     ((9 \<le> char_code c \<and> char_code c \<le> 13) \<or> char_code c = 32 \<or>
      char_code c = 133 \<or> char_code c = 160)"

definition digit_val :: "char \<Rightarrow> nat" where
  "digit_val c = char_code c - 48"

definition digit_char :: "nat \<Rightarrow> char" where
  "digit_char d = char_of (48 + d)"

text \<open>The number that a string of decimal digits denotes.\<close>

definition nat_of_digits :: "string \<Rightarrow> nat" where
  "nat_of_digits s = foldl (\<lambda>n c. 10 * n + digit_val c) 0 s"

text \<open>\<^verbatim>\<open>s.split(sep)\<close> for a separator of one character: never an empty list.\<close>

fun split_on :: "char \<Rightarrow> string \<Rightarrow> string list" where
  "split_on sep [] = [[]]"
| "split_on sep (c # cs) =
     (if c = sep then [] # split_on sep cs
      else (case split_on sep cs of
              [] \<Rightarrow> [[c]]
            | w # ws \<Rightarrow> (c # w) # ws))"

text \<open>\<^verbatim>\<open>sep.join(xs)\<close>.\<close>

fun join :: "string \<Rightarrow> string list \<Rightarrow> string" where
  "join sep [] = []"
| "join sep [x] = x"
| "join sep (x # y # ys) = x @ sep @ join sep (y # ys)"

text \<open>
  \<^verbatim>\<open>s.split(sep, 1)\<close> where \<open>sep\<close> occurs in \<open>s\<close>, and \<open>(s, None)\<close> where it does
  not: the text before the first separator and the text after it.
\<close>

fun split_first :: "char \<Rightarrow> string \<Rightarrow> string \<times> string option" where
  "split_first sep [] = ([], None)"
| "split_first sep (c # cs) =
     (if c = sep then ([], Some cs)
      else (case split_first sep cs of (a, b) \<Rightarrow> (c # a, b)))"

text \<open>
  \<^verbatim>\<open>int(s)\<close> on a string: surrounding white space is dropped, one sign is allowed, and
  the digits, which are the ten ASCII digits, may be grouped by single underscores.
  Anything else raises \<^verbatim>\<open>ValueError\<close>. The interpreter is the one of the module's
  time, which puts no limit on the number of digits.
\<close>

definition strip :: "string \<Rightarrow> string" where
  "strip s = rev (dropWhile is_space (rev (dropWhile is_space s)))"

definition digit_groups :: "string \<Rightarrow> bool" where
  "digit_groups s = list_all (\<lambda>g. g \<noteq> [] \<and> list_all is_digit g) (split_on (CHR ''_'') s)"

definition py_int :: "string \<Rightarrow> int result" where
  "py_int s =
     (let t = strip s;
          neg = (case t of [] \<Rightarrow> False | c # _ \<Rightarrow> c = CHR ''-'');
          u = (case t of
                 [] \<Rightarrow> []
               | c # r \<Rightarrow> if c = CHR ''-'' \<or> c = CHR ''+'' then r else t)
      in if digit_groups u
         then Inr ((if neg then - 1 else 1) * int (nat_of_digits (filter is_digit u)))
         else Inl ValueError)"

text \<open>\<^verbatim>\<open>map(int, parts)\<close>, consumed from the left: the first failure is raised.\<close>

fun map_py_int :: "string list \<Rightarrow> int list result" where
  "map_py_int [] = Inr []"
| "map_py_int (p # ps) =
     (case py_int p of
        Inl e \<Rightarrow> Inl e
      | Inr i \<Rightarrow> (case map_py_int ps of Inl e \<Rightarrow> Inl e | Inr js \<Rightarrow> Inr (i # js)))"

text \<open>\<^verbatim>\<open>str(i)\<close> on an integer: its decimal numeral.\<close>

fun str_nat :: "nat \<Rightarrow> string" where
  "str_nat n = (if n < 10 then [digit_char n] else str_nat (n div 10) @ [digit_char (n mod 10)])"

declare str_nat.simps [simp del]

definition py_str :: "int \<Rightarrow> string" where
  "py_str i = (if i < 0 then ''-'' @ str_nat (nat (- i)) else str_nat (nat i))"

section \<open>The semantic-version library\<close>

text \<open>
  Modelled from the spec: the external library \<^verbatim>\<open>semantic_version\<close> is not part of
  the repository. What follows is its strict parser \<^verbatim>\<open>Version(s)\<close>, its lenient parser
  \<^verbatim>\<open>Version.coerce(s)\<close> and the order of versions, in the release
  the module was written against: there \<^verbatim>\<open>coerce\<close> keeps the leading zeros of a
  component, which is why \<^verbatim>\<open>semantic_version\<close> carries its own workaround.
\<close>

definition is_ident_char :: "char \<Rightarrow> bool" where
  "is_ident_char c = (is_digit c \<or> is_alpha c \<or> c = CHR ''-'')"

text \<open>A numeric component or identifier with a forbidden leading zero.\<close>

definition has_leading_zero :: "string \<Rightarrow> bool" where
  "has_leading_zero s =
     (case s of
        [] \<Rightarrow> False
      | c # _ \<Rightarrow> c = CHR ''0'' \<and> list_all is_digit s \<and> s \<noteq> ''0'')"

text \<open>
  The dot-separated identifiers of a pre-release or build part: none empty, each made
  of letters, digits and hyphens; numeric ones without a leading zero unless allowed.
\<close>

definition validate_identifiers :: "bool \<Rightarrow> string list \<Rightarrow> bool" where
  "validate_identifiers allow_leading_zeroes ids =
     list_all (\<lambda>i. i \<noteq> [] \<and> list_all is_ident_char i \<and>
                   (allow_leading_zeroes \<or> \<not> has_leading_zero i)) ids"

text \<open>
  The three numbers of \<^verbatim>\<open>major.minor.patch\<close> and what follows them; \<open>None\<close> when
  the text does not start with three dot-separated groups of digits.
\<close>

definition take_number :: "string \<Rightarrow> (string \<times> string) option" where
  "take_number s =
     (if takeWhile is_digit s = [] then None
      else Some (takeWhile is_digit s, dropWhile is_digit s))"

definition take_dot :: "string \<Rightarrow> string option" where
  "take_dot s = (case s of [] \<Rightarrow> None | c # r \<Rightarrow> if c = CHR ''.'' then Some r else None)"

definition take_triple :: "string \<Rightarrow> (string \<times> string \<times> string \<times> string) option" where
  "take_triple s =
     (case take_number s of
        None \<Rightarrow> None
      | Some (a, r1) \<Rightarrow>
          (case take_dot r1 of
             None \<Rightarrow> None
           | Some r2 \<Rightarrow>
               (case take_number r2 of
                  None \<Rightarrow> None
                | Some (b, r3) \<Rightarrow>
                    (case take_dot r3 of
                       None \<Rightarrow> None
                     | Some r4 \<Rightarrow>
                         (case take_number r4 of
                            None \<Rightarrow> None
                          | Some (c, r5) \<Rightarrow> Some (a, b, c, r5))))))"

text \<open>
  \<^verbatim>\<open>Version(s)\<close>: \<^verbatim>\<open>major.minor.patch\<close>, then an optional \<^verbatim>\<open>-\<close> and pre-release
  identifiers, then an optional \<^verbatim>\<open>+\<close> and build identifiers. The library matches a
  regular expression that ends in \<^verbatim>\<open>$\<close>, which also matches before one line feed at
  the end of the text. Every failure is a \<^verbatim>\<open>ValueError\<close>.
\<close>

definition chop_newline :: "string \<Rightarrow> string" where
  "chop_newline s = (if s \<noteq> [] \<and> last s = CHR 0x0A then butlast s else s)"

definition Version_parse :: "string \<Rightarrow> Version result" where
  "Version_parse s =
     (case split_first (CHR ''+'') (chop_newline s) of
        (front, build_part) \<Rightarrow>
          (case take_triple front of
             None \<Rightarrow> Inl ValueError
           | Some (a, b, c, rest) \<Rightarrow>
               (let pre = (case rest of [] \<Rightarrow> Some [] | d # p \<Rightarrow>
                             if d = CHR ''-'' \<and> p \<noteq> [] then Some (split_on (CHR ''.'') p)
                             else None);
                    bld = (case build_part of None \<Rightarrow> Some [] | Some p \<Rightarrow>
                             if p \<noteq> [] then Some (split_on (CHR ''.'') p) else None)
                in case (pre, bld) of
                     (Some ps, Some bs) \<Rightarrow>
                       if has_leading_zero a then Inl ValueError
                       else if has_leading_zero b then Inl ValueError
                       else if has_leading_zero c then Inl ValueError
                       else if \<not> validate_identifiers False ps then Inl ValueError
                       else if \<not> validate_identifiers True bs then Inl ValueError
                       else Inr \<lparr>major = nat_of_digits a, minor = nat_of_digits b,
                                 patch = nat_of_digits c, prerelease = ps, build = bs\<rparr>
                   | _ \<Rightarrow> Inl ValueError)))"

text \<open>
  The longest prefix of the form \<^verbatim>\<open>\d+(\.\d+(\.\d+)?)?\<close> and the rest; \<open>None\<close> when
  the text does not start with a digit.
\<close>

definition take_dot_number :: "string \<Rightarrow> (string \<times> string) option" where
  "take_dot_number s =
     (case take_dot s of
        None \<Rightarrow> None
      | Some r \<Rightarrow>
          (case take_number r of
             None \<Rightarrow> None
           | Some (n, r') \<Rightarrow> Some (CHR ''.'' # n, r')))"

definition take_base :: "string \<Rightarrow> (string \<times> string) option" where
  "take_base s =
     (case take_number s of
        None \<Rightarrow> None
      | Some (a, r1) \<Rightarrow>
          (case take_dot_number r1 of
             None \<Rightarrow> Some (a, r1)
           | Some (b, r2) \<Rightarrow>
               (case take_dot_number r2 of
                  None \<Rightarrow> Some (a @ b, r2)
                | Some (c, r3) \<Rightarrow> Some (a @ b @ c, r3))))"

text \<open>A base with fewer than two dots is completed with \<^verbatim>\<open>.0\<close>.\<close>

definition pad_base :: "string \<Rightarrow> string" where
  "pad_base v =
     (let dots = length (filter (\<lambda>c. c = CHR ''.'') v)
      in if dots = 0 then v @ ''.0.0'' else if dots = 1 then v @ ''.0'' else v)"

text \<open>
  \<^verbatim>\<open>Version.coerce(s)\<close>: the base is completed to three numbers; in what follows it
  every character that cannot occur in a version becomes a hyphen, and the rest is
  divided into a pre-release and a build part, which are appended to the base before
  the strict parser is run on the whole. A text without a leading number, or one the
  strict parser still refuses, raises \<^verbatim>\<open>ValueError\<close>.
\<close>

definition clean_rest :: "string \<Rightarrow> string" where
  "clean_rest r =
     map (\<lambda>c. if is_ident_char c \<or> c = CHR ''+'' \<or> c = CHR ''.'' then c else CHR ''-'') r"

definition split_pre_build :: "string \<Rightarrow> string \<times> string" where
  "split_pre_build r =
     (case split_first (CHR ''+'') r of
        (p, None) \<Rightarrow> (p, [])
      | (p, Some b) \<Rightarrow> (p, b))"

definition Version_coerce :: "string \<Rightarrow> Version result" where
  "Version_coerce s =
     (case take_base s of
        None \<Rightarrow> Inl ValueError
      | Some (base, rest0) \<Rightarrow>
          (let v = pad_base base in
           case clean_rest rest0 of
             [] \<Rightarrow> Version_parse v
           | c # r \<Rightarrow>
               (let (pre, bld0) =
                      (if c = CHR ''+'' then ([], r)
                       else if c = CHR ''.'' then ([], r)
                       else if c = CHR ''-'' then split_pre_build r
                       else split_pre_build (c # r));
                    bld = map (\<lambda>x. if x = CHR ''+'' then CHR ''.'' else x) bld0;
                    v1 = (if pre \<noteq> [] then v @ ''-'' @ pre else v);
                    v2 = (if bld \<noteq> [] then v1 @ ''+'' @ bld else v1)
                in Version_parse v2)))"

text \<open>
  The order of versions: by major, minor and patch number, then by pre-release, where a
  version without pre-release is above every version with one. Numeric identifiers
  compare as numbers and are below alphanumeric ones, which compare as strings; build
  identifiers give no order.
\<close>

fun string_less :: "string \<Rightarrow> string \<Rightarrow> bool" where
  "string_less [] [] = False"
| "string_less [] (y # ys) = True"
| "string_less (x # xs) [] = False"
| "string_less (x # xs) (y # ys) =
     (if char_code x < char_code y then True
      else if char_code y < char_code x then False
      else string_less xs ys)"

definition identifier_less :: "string \<Rightarrow> string \<Rightarrow> bool" where
  "identifier_less a b =
     (if list_all is_digit a \<and> list_all is_digit b then nat_of_digits a < nat_of_digits b
      else if list_all is_digit a then True
      else if list_all is_digit b then False
      else string_less a b)"

fun identifier_list_less :: "string list \<Rightarrow> string list \<Rightarrow> bool" where
  "identifier_list_less [] [] = False"
| "identifier_list_less [] (y # ys) = True"
| "identifier_list_less (x # xs) [] = False"
| "identifier_list_less (x # xs) (y # ys) =
     (if identifier_less x y then True
      else if identifier_less y x then False
      else identifier_list_less xs ys)"

definition prerelease_less :: "string list \<Rightarrow> string list \<Rightarrow> bool" where
  "prerelease_less a b =
     (if a = [] then False
      else if b = [] then True
      else identifier_list_less a b)"

definition Version_less :: "Version \<Rightarrow> Version \<Rightarrow> bool" where
  "Version_less v w =
     (if major v \<noteq> major w then major v < major w
      else if minor v \<noteq> minor w then minor v < minor w
      else if patch v \<noteq> patch w then patch v < patch w
      else prerelease_less (prerelease v) (prerelease w))"

section \<open>The semantic version of a locked package\<close>

text \<open>
  \<^verbatim>\<open>parse_semantic_version\<close>: the strict parser, and on any exception the lenient one,
  whose own exception is not caught. The package name is used for the debug message
  only, which is not modelled.
\<close>

definition parse_semantic_version :: "string \<Rightarrow> string option \<Rightarrow> Version result" where
  "parse_semantic_version version_identifier package_name =
     (case Version_parse version_identifier of
        Inr v \<Rightarrow> Inr v
      | Inl exc \<Rightarrow> Version_coerce version_identifier)"

text \<open>
  The guard at the head of \<^verbatim>\<open>semantic_version\<close>: only when nothing is memoized is
  the lock checked. \<open>Some e\<close> is the exception it raises.
\<close>

definition semantic_version_guard :: "PackageVersion \<Rightarrow> exn option" where
  "semantic_version_guard self =
     (if cached_semantic_version self = None
      then (case is_locked self of
              Inl e \<Rightarrow> Some e
            | Inr b \<Rightarrow> if \<not> b then Some InternalError else None)
      else None)"

text \<open>
  The body of the \<^verbatim>\<open>except ValueError\<close> clause: every dot-separated part goes through
  \<^verbatim>\<open>int\<close> and \<^verbatim>\<open>str\<close>, and the result is parsed again.
\<close>

definition semantic_version_retry :: "PackageVersion \<Rightarrow> Version result" where
  "semantic_version_retry self =
     (case locked_version self of
        Inl e \<Rightarrow> Inl e
      | Inr lv \<Rightarrow>
          (case map_py_int (split_on (CHR ''.'') lv) of
             Inl e \<Rightarrow> Inl e
           | Inr parts \<Rightarrow>
               parse_semantic_version (join ''.'' (map py_str parts)) (Some (name self))))"

text \<open>
  \<^verbatim>\<open>semantic_version\<close>: the \<^verbatim>\<open>try\<close> statement stands after the guard, not inside it,
  so the version is parsed on every access and the memoized value is overwritten. The
  attribute is assigned only when a parse has returned; the object comes back with the
  outcome.
\<close>

definition semantic_version :: "PackageVersion \<Rightarrow> Version result \<times> PackageVersion" where
  "semantic_version self =
     (case semantic_version_guard self of
        Some e \<Rightarrow> (Inl e, self)
      | None \<Rightarrow>
          (case (case locked_version self of
                   Inl e \<Rightarrow> Inl e
                 | Inr lv \<Rightarrow> parse_semantic_version lv (Some (name self))) of
             Inr v \<Rightarrow> (Inr v, self\<lparr>cached_semantic_version := Some v\<rparr>)
           | Inl e \<Rightarrow>
               if e \<noteq> ValueError then (Inl e, self)
               else (case semantic_version_retry self of
                       Inl e' \<Rightarrow> (Inl e', self)
                     | Inr v \<Rightarrow> (Inr v, self\<lparr>cached_semantic_version := Some v\<rparr>))))"

section \<open>Comparison\<close>

text \<open>
  The class is decorated with \<^verbatim>\<open>@attr.s(slots=True)\<close>, and neither \<^verbatim>\<open>cmp\<close> nor
  \<^verbatim>\<open>eq\<close> nor \<^verbatim>\<open>order\<close> is switched off. The decorator therefore generates
  \<^verbatim>\<open>__eq__\<close>, \<^verbatim>\<open>__ne__\<close>, \<^verbatim>\<open>__lt__\<close>, \<^verbatim>\<open>__le__\<close>, \<^verbatim>\<open>__gt__\<close> and \<^verbatim>\<open>__ge__\<close> from
  the attribute declarations and puts them into the class in place of the methods of
  these names that the class body defines. The \<^verbatim>\<open>__eq__\<close>, \<^verbatim>\<open>__lt__\<close> and \<^verbatim>\<open>__gt__\<close>
  written in the module (the first compares name, version and \<^verbatim>\<open>self.index.url\<close> with
  itself, the other two raise \<^verbatim>\<open>ValueError\<close> for two names and compare semantic
  versions) are never called: the comparisons in force compare the tuples of the
  eight attributes, in the order of their declaration.
\<close>

text \<open>The objects that the attributes hold.\<close>

datatype pyobj =
    ONone
  | OBool bool
  | OStr string
  | OList "string list"
  | OSource Source
  | OVersion Version
  | OSpec Spec

fun of_pyval :: "pyval \<Rightarrow> pyobj" where
  "of_pyval VNone = ONone"
| "of_pyval (VStr s) = OStr s"
| "of_pyval (VList xs) = OList xs"

definition of_option :: "('a \<Rightarrow> pyobj) \<Rightarrow> 'a option \<Rightarrow> pyobj" where
  "of_option f x = (case x of None \<Rightarrow> ONone | Some y \<Rightarrow> f y)"

text \<open>The tuple of the attributes of an instance, in the order of the declarations.\<close>

definition attrs_to_tuple :: "PackageVersion \<Rightarrow> pyobj list" where
  "attrs_to_tuple self =
     [OStr (name self), of_pyval (version self), OBool (develop self),
      of_option OSource (index self), of_pyval (hashes self), of_pyval (markers self),
      of_option OVersion (cached_semantic_version self),
      of_option OSpec (cached_version_spec self)]"

text \<open>
  The generated \<^verbatim>\<open>__eq__\<close>: equality of the two tuples, which is equality of every
  pair of attributes. It reads no attribute of the index and raises nothing.
\<close>

definition PackageVersion_eq :: "PackageVersion \<Rightarrow> PackageVersion \<Rightarrow> bool result" where
  "PackageVersion_eq self other = Inr (attrs_to_tuple self = attrs_to_tuple other)"

text \<open>
  \<^verbatim>\<open>a < b\<close> on two lists of strings: the first pair of different elements decides,
  and a proper prefix is below.
\<close>

fun strings_less :: "string list \<Rightarrow> string list \<Rightarrow> bool" where
  "strings_less [] [] = False"
| "strings_less [] (y # ys) = True"
| "strings_less (x # xs) [] = False"
| "strings_less (x # xs) (y # ys) = (if x = y then strings_less xs ys else string_less x y)"

text \<open>
  \<^verbatim>\<open>a < b\<close> on two attribute values: strings by code points, \<^verbatim>\<open>False\<close> below
  \<^verbatim>\<open>True\<close>, lists as above, versions by the library. \<^verbatim>\<open>None\<close>, a specification and
  two values of different types have no order: \<^verbatim>\<open>TypeError\<close>. The order of two sources
  is defined in the module of \<^verbatim>\<open>Source\<close>, which is not at hand: it is the parameter
  \<open>source_less\<close>.
\<close>

fun obj_less :: "(Source \<Rightarrow> Source \<Rightarrow> bool result) \<Rightarrow> pyobj \<Rightarrow> pyobj \<Rightarrow> bool result" where
  "obj_less source_less (OStr s) (OStr t) = Inr (string_less s t)"
| "obj_less source_less (OBool x) (OBool y) = Inr (\<not> x \<and> y)"
| "obj_less source_less (OList xs) (OList ys) = Inr (strings_less xs ys)"
| "obj_less source_less (OSource s) (OSource t) = source_less s t"
| "obj_less source_less (OVersion v) (OVersion w) = Inr (Version_less v w)"
| "obj_less source_less a b = Inl TypeError"

text \<open>
  \<^verbatim>\<open>a < b\<close> on two tuples: the first pair of elements that are not equal decides; when
  there is none, the lengths decide.
\<close>

fun tuple_less ::
  "(Source \<Rightarrow> Source \<Rightarrow> bool result) \<Rightarrow> pyobj list \<Rightarrow> pyobj list \<Rightarrow> bool result" where
  "tuple_less source_less [] [] = Inr False"
| "tuple_less source_less [] (y # ys) = Inr True"
| "tuple_less source_less (x # xs) [] = Inr False"
| "tuple_less source_less (x # xs) (y # ys) =
     (if x = y then tuple_less source_less xs ys else obj_less source_less x y)"

text \<open>
  The generated \<^verbatim>\<open>__lt__\<close> and \<^verbatim>\<open>__gt__\<close>: the order of the two tuples. No name is
  checked, no semantic version is computed and no attribute is assigned; \<^verbatim>\<open>a > b\<close> on
  the deciding pair is \<^verbatim>\<open>b < a\<close>.
\<close>

definition PackageVersion_lt ::
  "(Source \<Rightarrow> Source \<Rightarrow> bool result) \<Rightarrow> PackageVersion \<Rightarrow> PackageVersion \<Rightarrow> bool result" where
  "PackageVersion_lt source_less self other =
     tuple_less source_less (attrs_to_tuple self) (attrs_to_tuple other)"

definition PackageVersion_gt ::
  "(Source \<Rightarrow> Source \<Rightarrow> bool result) \<Rightarrow> PackageVersion \<Rightarrow> PackageVersion \<Rightarrow> bool result" where
  "PackageVersion_gt source_less self other =
     tuple_less source_less (attrs_to_tuple other) (attrs_to_tuple self)"

section \<open>Tuples\<close>



section \<open>Dictionaries and the store\<close>

text \<open>
  A dictionary with string keys. The entries that the two parsers receive are objects
  of the caller, and one parser pops keys from the object it was given while the other
  copies it first: dictionaries live in a store, at addresses, and \<open>lim\<close> is the next
  free address.
\<close>

type_synonym pydict = "string \<rightharpoonup> pyval"

type_synonym addr = nat

record heap =
  cells :: "addr \<Rightarrow> pydict"
  lim :: addr

text \<open>\<^verbatim>\<open>dict(entry)\<close>: a new object with the same items.\<close>

definition dict_copy :: "heap \<Rightarrow> addr \<Rightarrow> addr \<times> heap" where
  "dict_copy h a = (lim h, h\<lparr>cells := (cells h)(lim h := cells h a), lim := Suc (lim h)\<rparr>)"

text \<open>\<^verbatim>\<open>d.get(k)\<close>: \<^verbatim>\<open>None\<close> for a missing key.\<close>

definition dict_get :: "pydict \<Rightarrow> string \<Rightarrow> pyval" where
  "dict_get d k = (case d k of None \<Rightarrow> VNone | Some v \<Rightarrow> v)"

text \<open>\<^verbatim>\<open>d.pop(k)\<close>: \<^verbatim>\<open>KeyError\<close> for a missing key, else the key is removed.\<close>

definition dict_pop :: "heap \<Rightarrow> addr \<Rightarrow> string \<Rightarrow> pyval result \<times> heap" where
  "dict_pop h a k =
     (case cells h a k of
        None \<Rightarrow> (Inl KeyError, h)
      | Some v \<Rightarrow> (Inr v, h\<lparr>cells := (cells h)(a := (cells h a)(k := None))\<rparr>))"

text \<open>\<^verbatim>\<open>d.pop(k, default)\<close>.\<close>

definition dict_pop_default :: "heap \<Rightarrow> addr \<Rightarrow> string \<Rightarrow> pyval \<Rightarrow> pyval \<times> heap" where
  "dict_pop_default h a k dflt =
     (case cells h a k of
        None \<Rightarrow> (dflt, h)
      | Some v \<Rightarrow> (v, h\<lparr>cells := (cells h)(a := (cells h a)(k := None))\<rparr>))"

section \<open>Resolving the index\<close>

text \<open>
  Modelled from the spec: \<^verbatim>\<open>PipenvMeta\<close> carries the source-index registry
  \<^verbatim>\<open>sources\<close>, a mapping from the symbolic name of an index to its \<^verbatim>\<open>Source\<close>.
\<close>

record PipenvMeta =
  sources :: "string \<rightharpoonup> Source"

text \<open>
  \<^verbatim>\<open>_get_index_from_meta\<close>: no name, no index; a name of the registry, its source;
  any other name, \<^verbatim>\<open>PipfileParseError\<close>. A list cannot be looked up in a dictionary.
\<close>

definition get_index_from_meta :: "PipenvMeta \<Rightarrow> string \<Rightarrow> pyval \<Rightarrow> Source option result" where
  "get_index_from_meta meta package_name index_name =
     (case index_name of
        VNone \<Rightarrow> Inr None
      | VList xs \<Rightarrow> Inl TypeError
      | VStr n \<Rightarrow>
          (case sources meta n of
             Some s \<Rightarrow> Inr (Some s)
           | None \<Rightarrow> Inl PipfileParseError))"

section \<open>Pipfile.lock entries\<close>

text \<open>
  \<^verbatim>\<open>from_pipfile_lock_entry\<close>: the entry is copied, the copy must have a true
  \<^verbatim>\<open>version\<close> and a true \<^verbatim>\<open>hashes\<close>, and the arguments of the constructor are
  evaluated in the order written: \<open>version\<close>, \<open>index\<close>, \<open>hashes\<close>, \<open>markers\<close>. What
  is left of the copy is only logged.
\<close>

definition from_pipfile_lock_entry ::
  "heap \<Rightarrow> string \<Rightarrow> addr \<Rightarrow> bool \<Rightarrow> PipenvMeta \<Rightarrow> PackageVersion result \<times> heap" where
  "from_pipfile_lock_entry h package_name entry develop_flag meta =
     (case dict_copy h entry of
        (e, h0) \<Rightarrow>
          if \<not> truthy (dict_get (cells h0 e) ''version'') then (Inl PipfileParseError, h0)
          else if \<not> truthy (dict_get (cells h0 e) ''hashes'') then (Inl PipfileParseError, h0)
          else (case dict_pop h0 e ''version'' of
                  (Inl x, h1) \<Rightarrow> (Inl x, h1)
                | (Inr v, h1) \<Rightarrow>
                    (case dict_pop_default h1 e ''index'' VNone of
                       (i, h2) \<Rightarrow>
                         (case get_index_from_meta meta package_name i of
                            Inl x \<Rightarrow> (Inl x, h2)
                          | Inr idx \<Rightarrow>
                              (case dict_pop h2 e ''hashes'' of
                                 (Inl x, h3) \<Rightarrow> (Inl x, h3)
                               | (Inr hs, h3) \<Rightarrow>
                                   (case dict_pop_default h3 e ''markers'' VNone of
                                      (m, h4) \<Rightarrow>
                                        (Inr (new_PackageVersion package_name v develop_flag idx hs m),
                                         h4)))))))"

text \<open>
  \<^verbatim>\<open>to_pipfile_lock\<close>: \<^verbatim>\<open>InternalError\<close> unless locked; the check of the hashes is
  commented out in the source. \<open>markers\<close> and \<open>index\<close> are written only when true.
  The result is the dictionary \<^verbatim>\<open>{self.name: result}\<close>.
\<close>

definition to_pipfile_lock :: "PackageVersion \<Rightarrow> (string \<rightharpoonup> pydict) result" where
  "to_pipfile_lock self =
     (case is_locked self of
        Inl e \<Rightarrow> Inl e
      | Inr b \<Rightarrow>
          if \<not> b then Inl InternalError
          else
            (let result = [''version'' \<mapsto> version self, ''hashes'' \<mapsto> hashes self];
                 result1 = (if truthy (markers self) then result(''markers'' \<mapsto> markers self)
                            else result);
                 result2 = (case index self of
                              None \<Rightarrow> result1
                            | Some s \<Rightarrow> result1(''index'' \<mapsto> VStr (source_name s)))
             in Inr [name self \<mapsto> result2]))"

section \<open>Pipfile entries\<close>

text \<open>
  An entry of a Pipfile is a string (the version) or a dictionary with further
  configuration.
\<close>

datatype entry = EStr string | EDict addr

text \<open>
  \<^verbatim>\<open>from_pipfile_entry\<close>: a dictionary with one of the keys \<^verbatim>\<open>git\<close>, \<^verbatim>\<open>hg\<close>,
  \<^verbatim>\<open>bzr\<close>, \<^verbatim>\<open>svn\<close> is refused; otherwise \<open>version\<close> and \<open>index\<close> are popped from
  the dictionary that was passed in. \<open>hashes\<close> and \<open>markers\<close> keep their defaults.
\<close>

definition uses_vcs :: "pydict \<Rightarrow> bool" where
  "uses_vcs d = list_ex (\<lambda>vcs. d vcs \<noteq> None) [''git'', ''hg'', ''bzr'', ''svn'']"

definition from_pipfile_entry ::
  "heap \<Rightarrow> string \<Rightarrow> entry \<Rightarrow> bool \<Rightarrow> PipenvMeta \<Rightarrow> PackageVersion result \<times> heap" where
  "from_pipfile_entry h package_name entry develop_flag meta =
     (case (case entry of
              EStr s \<Rightarrow> (Inr (VStr s, VNone), h)
            | EDict a \<Rightarrow>
                if uses_vcs (cells h a) then (Inl UnsupportedConfiguration, h)
                else (case dict_pop h a ''version'' of
                        (Inl x, h1) \<Rightarrow> (Inl x, h1)
                      | (Inr v, h1) \<Rightarrow>
                          (case dict_pop_default h1 a ''index'' VNone of
                             (i, h2) \<Rightarrow> (Inr (v, i), h2)))) of
        (Inl x, h') \<Rightarrow> (Inl x, h')
      | (Inr (package_version, index_name), h') \<Rightarrow>
          (case get_index_from_meta meta package_name index_name of
             Inl x \<Rightarrow> (Inl x, h')
           | Inr idx \<Rightarrow>
               (Inr (new_PackageVersion package_name package_version develop_flag idx (VList []) VNone),
                h')))"

section \<open>Writing an entry and reading it back\<close>

text \<open>A dictionary becomes an object of the store: it is placed at the next free address.\<close>

definition dict_new :: "heap \<Rightarrow> pydict \<Rightarrow> addr \<times> heap" where
  "dict_new h d = (lim h, h\<lparr>cells := (cells h)(lim h := d), lim := Suc (lim h)\<rparr>)"

text \<open>
  The round trip of the specification, as a client would write it:
  \<^verbatim>\<open>entry = pv.to_pipfile_lock()[pv.name]\<close>, then
  \<^verbatim>\<open>PackageVersion.from_pipfile_lock_entry(pv.name, entry, pv.develop, meta)\<close>.
\<close>

definition lock_roundtrip :: "heap \<Rightarrow> PackageVersion \<Rightarrow> PipenvMeta \<Rightarrow> PackageVersion result" where
  "lock_roundtrip h self meta =
     (case to_pipfile_lock self of
        Inl e \<Rightarrow> Inl e
      | Inr out \<Rightarrow>
          (case out (name self) of
             None \<Rightarrow> Inl KeyError
           | Some d \<Rightarrow>
               (case dict_new h d of
                  (a, h') \<Rightarrow> fst (from_pipfile_lock_entry h' (name self) a (develop self) meta))))"

section \<open>Properties\<close>

subsection \<open>Equality\<close>





text \<open>
  C1. Equality is meant to hold exactly for records of equal name, equal version and
  equal index URL, and the \<^verbatim>\<open>__eq__\<close> written in the class body attempts that. The
  comparison in force is the generated one, over all eight attributes: two records of
  one name, one version and one index that differ in the develop flag only are
  unequal.
\<close>

theorem eq_compares_every_attribute:
  "PackageVersion_eq
     (new_PackageVersion ''pkg'' (VStr ''==1.0.0'') False
        (Some \<lparr>url = ''https://pypi.org/simple'', source_name = ''pypi''\<rparr>) (VList []) VNone)
     (new_PackageVersion ''pkg'' (VStr ''==1.0.0'') True
        (Some \<lparr>url = ''https://pypi.org/simple'', source_name = ''pypi''\<rparr>) (VList []) VNone)
   = Inr False"
  by (simp add: PackageVersion_eq_def attrs_to_tuple_def new_PackageVersion_def)

subsection \<open>Negating a locked version\<close>

lemma is_locked_True_iff:
  "is_locked self = Inr True \<longleftrightarrow> (\<exists>s. version self = VStr s \<and> startswith s ''=='')"
  by (auto simp: is_locked_def split: pyval.splits)

lemma startswith_eqeq:
  "startswith s ''=='' \<longleftrightarrow> (\<exists>t. s = ''=='' @ t)"
proof
  assume "startswith s ''==''"
  then have "take (length ''=='') s = ''==''" by (simp only: startswith_def)
  then have "s = ''=='' @ drop (length ''=='') s" by (metis append_take_drop_id)
  then show "\<exists>t. s = ''=='' @ t" ..
next
  assume "\<exists>t. s = ''=='' @ t"
  then show "startswith s ''==''" by (auto simp: startswith_def)
qed

text \<open>
  C2, as the specification states it: negating \<^verbatim>\<open>"==1.2.3"\<close> gives \<^verbatim>\<open>"!1.2.3"\<close>.
  The method drops one character only, so the second \<^verbatim>\<open>=\<close> stays.
\<close>

theorem negate_version_not_bang_only:
  "version (snd (negate_version
      (new_PackageVersion ''pkg'' (VStr ''==1.2.3'') False None (VList []) VNone)))
   \<noteq> VStr ''!1.2.3''"
  by (simp add: negate_version_def is_locked_def startswith_def new_PackageVersion_def)

text \<open>
  C2, amended: on a locked record with version \<^verbatim>\<open>"==" + t\<close> the method returns and sets
  the version to \<^verbatim>\<open>"!=" + t\<close>, changing nothing else; on a record whose version is a
  string that does not start with \<^verbatim>\<open>==\<close> it raises \<^verbatim>\<open>InternalError\<close> and leaves the
  record as it was.
\<close>

theorem negate_version_spec:
  "(version self = VStr (''=='' @ t) \<longrightarrow>
      negate_version self = (Inr (), self\<lparr>version := VStr (''!='' @ t)\<rparr>)) \<and>
   (version self = VStr s \<and> \<not> startswith s ''=='' \<longrightarrow>
      negate_version self = (Inl InternalError, self))"
  by (simp add: negate_version_def is_locked_def startswith_def)

theorem negate_version_spec_witness:
  "negate_version (new_PackageVersion ''pkg'' (VStr ''==1.2.3'') False None (VList []) VNone)
     = (Inr (), new_PackageVersion ''pkg'' (VStr ''!=1.2.3'') False None (VList []) VNone) \<and>
   negate_version (new_PackageVersion ''pkg'' (VStr ''>=1.0'') False None (VList []) VNone)
     = (Inl InternalError,
        new_PackageVersion ''pkg'' (VStr ''>=1.0'') False None (VList []) VNone)"
proof -
  let ?a = "new_PackageVersion ''pkg'' (VStr ''==1.2.3'') False None (VList []) VNone"
  let ?b = "new_PackageVersion ''pkg'' (VStr ''>=1.0'') False None (VList []) VNone"
  have a: "version ?a = VStr (''=='' @ ''1.2.3'')"
    by (simp add: new_PackageVersion_def)
  have b: "version ?b = VStr ''>=1.0'' \<and> \<not> startswith ''>=1.0'' ''==''"
    by (simp add: new_PackageVersion_def startswith_def)
  from a negate_version_spec [of ?a "''1.2.3''" "''>=1.0''"]
  have "negate_version ?a = (Inr (), ?a\<lparr>version := VStr (''!='' @ ''1.2.3'')\<rparr>)"
    by blast
  moreover from b negate_version_spec [of ?b "''x''" "''>=1.0''"]
  have "negate_version ?b = (Inl InternalError, ?b)"
    by blast
  ultimately show ?thesis
    by (simp add: new_PackageVersion_def)
qed

subsection \<open>The semantic version\<close>

lemma Version_parse_raises: "Version_parse s = Inl e \<Longrightarrow> e = ValueError"
  by (auto simp: Version_parse_def Let_def split: prod.splits option.splits if_splits list.splits)

lemma Version_coerce_raises: "Version_coerce s = Inl e \<Longrightarrow> e = ValueError"
  by (auto simp: Version_coerce_def Let_def split: prod.splits option.splits if_splits list.splits
           dest: Version_parse_raises)

lemma map_py_int_raises: "map_py_int ps = Inl e \<Longrightarrow> e = ValueError"
  by (induction ps arbitrary: e) (auto simp: py_int_def Let_def split: sum.splits if_splits)

lemma locked_version_eqeq:
  "version self = VStr (''=='' @ lv) \<Longrightarrow> locked_version self = Inr lv"
  by (simp add: locked_version_def is_locked_def startswith_def)

lemma guard_eqeq:
  "version self = VStr (''=='' @ lv) \<Longrightarrow> semantic_version_guard self = None"
  by (simp add: semantic_version_guard_def is_locked_def startswith_def)

lemma semantic_version_first_try:
  "version self = VStr (''=='' @ lv) \<Longrightarrow> parse_semantic_version lv (Some (name self)) = Inr v \<Longrightarrow>
   semantic_version self = (Inr v, self\<lparr>cached_semantic_version := Some v\<rparr>)"
  by (simp add: semantic_version_def guard_eqeq locked_version_eqeq)

lemma semantic_version_second_try:
  "version self = VStr (''=='' @ lv) \<Longrightarrow>
   parse_semantic_version lv (Some (name self)) = Inl ValueError \<Longrightarrow>
   map_py_int (split_on (CHR ''.'') lv) = Inr parts \<Longrightarrow>
   parse_semantic_version (join ''.'' (map py_str parts)) (Some (name self)) = Inr v \<Longrightarrow>
   semantic_version self = (Inr v, self\<lparr>cached_semantic_version := Some v\<rparr>)"
  by (simp add: semantic_version_def semantic_version_retry_def guard_eqeq locked_version_eqeq)

lemma semantic_version_int_fails:
  "version self = VStr (''=='' @ lv) \<Longrightarrow>
   parse_semantic_version lv (Some (name self)) = Inl ValueError \<Longrightarrow>
   map_py_int (split_on (CHR ''.'') lv) = Inl ValueError \<Longrightarrow>
   semantic_version self = (Inl ValueError, self)"
  by (simp add: semantic_version_def semantic_version_retry_def guard_eqeq locked_version_eqeq)

text \<open>Evaluations on the versions of the examples.\<close>

lemma parse_abc: "parse_semantic_version ''abc'' n = Inl ValueError"
proof -
  have "Version_parse ''abc'' = Inl ValueError" by code_simp
  moreover have "Version_coerce ''abc'' = Inl ValueError" by code_simp
  ultimately show ?thesis by (simp add: parse_semantic_version_def)
qed

lemma int_abc: "map_py_int (split_on (CHR ''.'') ''abc'') = Inl ValueError"
  by code_simp

lemma parse_3_01_2: "parse_semantic_version ''3.01.2'' n = Inl ValueError"
proof -
  have "Version_parse ''3.01.2'' = Inl ValueError" by code_simp
  moreover have "Version_coerce ''3.01.2'' = Inl ValueError" by code_simp
  ultimately show ?thesis by (simp add: parse_semantic_version_def)
qed

lemma int_3_01_2: "map_py_int (split_on (CHR ''.'') ''3.01.2'') = Inr [3, 1, 2]"
  by code_simp

lemma str_3_1_2: "join ''.'' (map py_str [3, 1, 2]) = ''3.1.2''"
  by code_simp

lemma parse_3_1_2:
  "parse_semantic_version ''3.1.2'' n =
     Inr \<lparr>major = 3, minor = 1, patch = 2, prerelease = [], build = []\<rparr>"
proof -
  have "Version_parse ''3.1.2'' =
          Inr \<lparr>major = 3, minor = 1, patch = 2, prerelease = [], build = []\<rparr>"
    by code_simp
  then show ?thesis by (simp add: parse_semantic_version_def)
qed

lemma parse_1_0_0:
  "parse_semantic_version ''1.0.0'' n =
     Inr \<lparr>major = 1, minor = 0, patch = 0, prerelease = [], build = []\<rparr>"
proof -
  have "Version_parse ''1.0.0'' =
          Inr \<lparr>major = 1, minor = 0, patch = 0, prerelease = [], build = []\<rparr>"
    by code_simp
  then show ?thesis by (simp add: parse_semantic_version_def)
qed

lemma parse_2_0_0:
  "parse_semantic_version ''2.0.0'' n =
     Inr \<lparr>major = 2, minor = 0, patch = 0, prerelease = [], build = []\<rparr>"
proof -
  have "Version_parse ''2.0.0'' =
          Inr \<lparr>major = 2, minor = 0, patch = 0, prerelease = [], build = []\<rparr>"
    by code_simp
  then show ?thesis by (simp add: parse_semantic_version_def)
qed

text \<open>
  C5, as the specification states it: computing the semantic version of a locked record
  never raises to the caller. The locked version \<^verbatim>\<open>"==abc"\<close> is refused by the strict
  and by the lenient parser, and the workaround then calls \<^verbatim>\<open>int("abc")\<close>, whose
  \<^verbatim>\<open>ValueError\<close> nothing catches.
\<close>

theorem semantic_version_raises_on_abc:
  "is_locked (new_PackageVersion ''pkg'' (VStr ''==abc'') False None (VList []) VNone) = Inr True \<and>
   semantic_version (new_PackageVersion ''pkg'' (VStr ''==abc'') False None (VList []) VNone)
     = (Inl ValueError, new_PackageVersion ''pkg'' (VStr ''==abc'') False None (VList []) VNone)"
proof -
  let ?p = "new_PackageVersion ''pkg'' (VStr ''==abc'') False None (VList []) VNone"
  have v: "version ?p = VStr (''=='' @ ''abc'')"
    by (simp add: new_PackageVersion_def)
  have "is_locked ?p = Inr True"
    by (simp add: is_locked_def startswith_def new_PackageVersion_def)
  moreover have "semantic_version ?p = (Inl ValueError, ?p)"
    by (rule semantic_version_int_fails [OF v parse_abc int_abc])
  ultimately show ?thesis by simp
qed

text \<open>
  C5, amended: on a locked record with version \<^verbatim>\<open>"==" + lv\<close> the accessor tries the
  strict parser on \<open>lv\<close>, then the lenient parser on \<open>lv\<close>; only when both have
  failed does it convert every dot-separated part of \<open>lv\<close> with \<^verbatim>\<open>int\<close>, which drops
  leading zeros, and try the strict and then the lenient parser on the parts joined
  again. The first parse that returns is the result, and it is memoized. When a part is
  no integer literal, or when both parsers refuse the joined parts too, \<^verbatim>\<open>ValueError\<close>
  reaches the caller and the record is as before.
\<close>

theorem semantic_version_fallback:
  assumes "version self = VStr (''=='' @ lv)"
  shows "semantic_version self =
     (case Version_parse lv of
        Inr v \<Rightarrow> (Inr v, self\<lparr>cached_semantic_version := Some v\<rparr>)
      | Inl e1 \<Rightarrow>
          (case Version_coerce lv of
             Inr v \<Rightarrow> (Inr v, self\<lparr>cached_semantic_version := Some v\<rparr>)
           | Inl e2 \<Rightarrow>
               (case map_py_int (split_on (CHR ''.'') lv) of
                  Inl e3 \<Rightarrow> (Inl ValueError, self)
                | Inr parts \<Rightarrow>
                    (case Version_parse (join ''.'' (map py_str parts)) of
                       Inr v \<Rightarrow> (Inr v, self\<lparr>cached_semantic_version := Some v\<rparr>)
                     | Inl e4 \<Rightarrow>
                         (case Version_coerce (join ''.'' (map py_str parts)) of
                            Inr v \<Rightarrow> (Inr v, self\<lparr>cached_semantic_version := Some v\<rparr>)
                          | Inl e5 \<Rightarrow> (Inl ValueError, self))))))"
  using assms
  by (auto simp: semantic_version_def semantic_version_retry_def guard_eqeq locked_version_eqeq
        parse_semantic_version_def
      split: sum.splits dest: Version_coerce_raises map_py_int_raises)

theorem semantic_version_fallback_witness:
  "fst (semantic_version (new_PackageVersion ''pkg'' (VStr ''==1.02'') False None (VList []) VNone))
     = Inr \<lparr>major = 1, minor = 2, patch = 0, prerelease = [], build = []\<rparr> \<and>
   fst (semantic_version (new_PackageVersion ''pkg'' (VStr ''==1.x'') False None (VList []) VNone))
     = Inr \<lparr>major = 1, minor = 0, patch = 0, prerelease = [], build = [''x'']\<rparr> \<and>
   fst (semantic_version (new_PackageVersion ''pkg'' (VStr ''==x.1'') False None (VList []) VNone))
     = Inl ValueError"
proof -
  let ?p = "new_PackageVersion ''pkg'' (VStr ''==1.02'') False None (VList []) VNone"
  let ?q = "new_PackageVersion ''pkg'' (VStr ''==1.x'') False None (VList []) VNone"
  let ?r = "new_PackageVersion ''pkg'' (VStr ''==x.1'') False None (VList []) VNone"
  have p: "version ?p = VStr (''=='' @ ''1.02'')" by (simp add: new_PackageVersion_def)
  have q: "version ?q = VStr (''=='' @ ''1.x'')" by (simp add: new_PackageVersion_def)
  have r: "version ?r = VStr (''=='' @ ''x.1'')" by (simp add: new_PackageVersion_def)
  have p1: "Version_parse ''1.02'' = Inl ValueError" by code_simp
  have p2: "Version_coerce ''1.02'' = Inl ValueError" by code_simp
  have p3: "map_py_int (split_on (CHR ''.'') ''1.02'') = Inr [1, 2]" by code_simp
  have p4: "join ''.'' (map py_str [1, 2]) = ''1.2''" by code_simp
  have p5: "Version_parse ''1.2'' = Inl ValueError" by code_simp
  have p6: "Version_coerce ''1.2'' =
              Inr \<lparr>major = 1, minor = 2, patch = 0, prerelease = [], build = []\<rparr>"
    by code_simp
  have q1: "Version_parse ''1.x'' = Inl ValueError" by code_simp
  have q2: "Version_coerce ''1.x'' =
              Inr \<lparr>major = 1, minor = 0, patch = 0, prerelease = [], build = [''x'']\<rparr>"
    by code_simp
  have r1: "Version_parse ''x.1'' = Inl ValueError" by code_simp
  have r2: "Version_coerce ''x.1'' = Inl ValueError" by code_simp
  have r3: "map_py_int (split_on (CHR ''.'') ''x.1'') = Inl ValueError" by code_simp
  have "fst (semantic_version ?p)
          = Inr \<lparr>major = 1, minor = 2, patch = 0, prerelease = [], build = []\<rparr>"
    by (simp only: semantic_version_fallback [OF p] p1 p2 p3 p4 p5 p6 sum.case fst_conv)
  moreover have "fst (semantic_version ?q)
          = Inr \<lparr>major = 1, minor = 0, patch = 0, prerelease = [], build = [''x'']\<rparr>"
    by (simp only: semantic_version_fallback [OF q] q1 q2 sum.case fst_conv)
  moreover have "fst (semantic_version ?r) = Inl ValueError"
    by (simp only: semantic_version_fallback [OF r] r1 r2 r3 sum.case fst_conv)
  ultimately show ?thesis by simp
qed

text \<open>
  C6. On a record locked to \<^verbatim>\<open>"==3.01.2"\<close> the accessor returns the semantic version
  3.1.2 and memoizes it: both parsers refuse the leading zero, the workaround rewrites
  the version to \<^verbatim>\<open>"3.1.2"\<close>, and the strict parser accepts that.
\<close>

theorem semantic_version_3_01_2:
  assumes "version self = VStr ''==3.01.2''"
  shows "semantic_version self =
     (Inr \<lparr>major = 3, minor = 1, patch = 2, prerelease = [], build = []\<rparr>,
      self\<lparr>cached_semantic_version :=
             Some \<lparr>major = 3, minor = 1, patch = 2, prerelease = [], build = []\<rparr>\<rparr>)"
proof -
  from assms have v: "version self = VStr (''=='' @ ''3.01.2'')" by simp
  have "parse_semantic_version (join ''.'' (map py_str [3, 1, 2])) (Some (name self)) =
          Inr \<lparr>major = 3, minor = 1, patch = 2, prerelease = [], build = []\<rparr>"
    by (simp only: str_3_1_2 parse_3_1_2)
  with v show ?thesis
    by (rule semantic_version_second_try [OF _ parse_3_01_2 int_3_01_2])
qed

theorem semantic_version_3_01_2_witness:
  "semantic_version (new_PackageVersion ''pkg'' (VStr ''==3.01.2'') False None (VList []) VNone) =
     (Inr \<lparr>major = 3, minor = 1, patch = 2, prerelease = [], build = []\<rparr>,
      \<lparr>name = ''pkg'', version = VStr ''==3.01.2'', develop = False, index = None,
       hashes = VList [], markers = VNone,
       cached_semantic_version =
         Some \<lparr>major = 3, minor = 1, patch = 2, prerelease = [], build = []\<rparr>,
       cached_version_spec = None\<rparr>)"
proof -
  let ?p = "new_PackageVersion ''pkg'' (VStr ''==3.01.2'') False None (VList []) VNone"
  have v: "version ?p = VStr ''==3.01.2''" by (simp add: new_PackageVersion_def)
  show ?thesis
    using semantic_version_3_01_2 [OF v] by (simp add: new_PackageVersion_def)
qed

subsection \<open>Ordering\<close>

lemma tuple_less_name:
  "name a \<noteq> name b \<Longrightarrow>
   tuple_less sl (attrs_to_tuple a) (attrs_to_tuple b) = Inr (string_less (name a) (name b))"
  by (simp add: attrs_to_tuple_def)

lemma tuple_less_version:
  "name a = name b \<Longrightarrow> version a = VStr s \<Longrightarrow> version b = VStr t \<Longrightarrow> s \<noteq> t \<Longrightarrow>
   tuple_less sl (attrs_to_tuple a) (attrs_to_tuple b) = Inr (string_less s t)"
  by (simp add: attrs_to_tuple_def)

text \<open>
  C4. Ordering is meant to raise a validation error for records of two names and to
  compare semantic versions for records of one name, and the \<^verbatim>\<open>__lt__\<close> and
  \<^verbatim>\<open>__gt__\<close> written in the class body attempt that. The comparisons in force are the
  generated ones: records of the names \<^verbatim>\<open>a\<close> and \<^verbatim>\<open>b\<close> are ordered by these names and
  nothing is raised, and a record locked to \<^verbatim>\<open>"==10.0.0"\<close> is below a record of the same
  name locked to \<^verbatim>\<open>"==9.0.0"\<close>, and not above it, because the version strings are
  compared. A record locked to \<^verbatim>\<open>"==1.0.0"\<close> is below one locked to \<^verbatim>\<open>"==2.0.0"\<close>, as
  the specification says, for the same reason.
\<close>

theorem order_is_by_attribute_tuple:
  "PackageVersion_lt source_less
     (new_PackageVersion ''a'' (VStr ''==1.0.0'') False None (VList []) VNone)
     (new_PackageVersion ''b'' (VStr ''==1.0.0'') False None (VList []) VNone) = Inr True \<and>
   PackageVersion_gt source_less
     (new_PackageVersion ''a'' (VStr ''==1.0.0'') False None (VList []) VNone)
     (new_PackageVersion ''b'' (VStr ''==1.0.0'') False None (VList []) VNone) = Inr False \<and>
   PackageVersion_lt source_less
     (new_PackageVersion ''pkg'' (VStr ''==10.0.0'') False None (VList []) VNone)
     (new_PackageVersion ''pkg'' (VStr ''==9.0.0'') False None (VList []) VNone) = Inr True \<and>
   PackageVersion_gt source_less
     (new_PackageVersion ''pkg'' (VStr ''==10.0.0'') False None (VList []) VNone)
     (new_PackageVersion ''pkg'' (VStr ''==9.0.0'') False None (VList []) VNone) = Inr False \<and>
   PackageVersion_lt source_less
     (new_PackageVersion ''pkg'' (VStr ''==1.0.0'') False None (VList []) VNone)
     (new_PackageVersion ''pkg'' (VStr ''==2.0.0'') False None (VList []) VNone) = Inr True"
proof -
  let ?a = "new_PackageVersion ''a'' (VStr ''==1.0.0'') False None (VList []) VNone"
  let ?b = "new_PackageVersion ''b'' (VStr ''==1.0.0'') False None (VList []) VNone"
  let ?p = "new_PackageVersion ''pkg'' (VStr ''==10.0.0'') False None (VList []) VNone"
  let ?q = "new_PackageVersion ''pkg'' (VStr ''==9.0.0'') False None (VList []) VNone"
  let ?r = "new_PackageVersion ''pkg'' (VStr ''==1.0.0'') False None (VList []) VNone"
  let ?s = "new_PackageVersion ''pkg'' (VStr ''==2.0.0'') False None (VList []) VNone"
  have "PackageVersion_lt source_less ?a ?b = Inr True"
    unfolding PackageVersion_lt_def
    by (subst tuple_less_name) (simp_all add: new_PackageVersion_def char_code_def)
  moreover have "PackageVersion_gt source_less ?a ?b = Inr False"
    unfolding PackageVersion_gt_def
    by (subst tuple_less_name) (simp_all add: new_PackageVersion_def char_code_def)
  moreover have "PackageVersion_lt source_less ?p ?q = Inr True"
    unfolding PackageVersion_lt_def
    by (subst tuple_less_version [where s = "''==10.0.0''" and t = "''==9.0.0''"])
       (simp_all add: new_PackageVersion_def char_code_def)
  moreover have "PackageVersion_gt source_less ?p ?q = Inr False"
    unfolding PackageVersion_gt_def
    by (subst tuple_less_version [where s = "''==9.0.0''" and t = "''==10.0.0''"])
       (simp_all add: new_PackageVersion_def char_code_def)
  moreover have "PackageVersion_lt source_less ?r ?s = Inr True"
    unfolding PackageVersion_lt_def
    by (subst tuple_less_version [where s = "''==1.0.0''" and t = "''==2.0.0''"])
       (simp_all add: new_PackageVersion_def char_code_def)
  ultimately show ?thesis by blast
qed

subsection \<open>Records without an index\<close>




subsection \<open>Parsing entries\<close>

text \<open>
  The outcome of \<^verbatim>\<open>from_pipfile_lock_entry\<close> in terms of the entry that was passed in.
\<close>

lemma from_pipfile_lock_entry_outcome:
  "fst (from_pipfile_lock_entry h n a d meta) =
     (if \<not> truthy (dict_get (cells h a) ''version'') then Inl PipfileParseError
      else if \<not> truthy (dict_get (cells h a) ''hashes'') then Inl PipfileParseError
      else (case get_index_from_meta meta n (dict_get (cells h a) ''index'') of
              Inl x \<Rightarrow> Inl x
            | Inr idx \<Rightarrow>
                Inr (new_PackageVersion n (dict_get (cells h a) ''version'') d idx
                       (dict_get (cells h a) ''hashes'') (dict_get (cells h a) ''markers''))))"
  by (auto simp: from_pipfile_lock_entry_def dict_copy_def dict_get_def dict_pop_def
        dict_pop_default_def
      split: option.splits sum.splits)

text \<open>
  C7, as the specification states it: with \<open>version\<close> and \<open>hashes\<close> present and not
  empty, construction succeeds. An entry that names an index which the registry does
  not hold is refused all the same.
\<close>

theorem from_pipfile_lock_entry_unknown_index:
  "fst (from_pipfile_lock_entry
          \<lparr>cells = (\<lambda>b. Map.empty)
                     (0 := [''version'' \<mapsto> VStr ''==1.0.0'', ''hashes'' \<mapsto> VList [''sha256:0''],
                            ''index'' \<mapsto> VStr ''private'']),
           lim = 1\<rparr>
          ''pkg'' 0 False \<lparr>sources = Map.empty\<rparr>)
   = Inl PipfileParseError"
  by (simp add: from_pipfile_lock_entry_outcome dict_get_def get_index_from_meta_def)

text \<open>
  C7, amended: \<^verbatim>\<open>from_pipfile_lock_entry\<close> raises \<^verbatim>\<open>PipfileParseError\<close> for every
  entry in which \<open>version\<close> or \<open>hashes\<close> is missing or empty. When both are present
  and not empty, \<open>markers\<close> is optional, and construction succeeds if \<open>index\<close> is
  missing or \<^verbatim>\<open>None\<close> (the record then has no index) or names an index of the registry
  (the record then has that source); an index name that the registry does not hold
  raises \<^verbatim>\<open>PipfileParseError\<close> as well.
\<close>

theorem from_pipfile_lock_entry_spec:
  "(cells h a ''version'' = None \<or> (\<exists>x. cells h a ''version'' = Some x \<and> \<not> truthy x) \<or>
    cells h a ''hashes'' = None \<or> (\<exists>x. cells h a ''hashes'' = Some x \<and> \<not> truthy x) \<longrightarrow>
      fst (from_pipfile_lock_entry h n a d meta) = Inl PipfileParseError) \<and>
   (cells h a ''version'' = Some v \<and> truthy v \<and> cells h a ''hashes'' = Some hs \<and> truthy hs \<longrightarrow>
      (cells h a ''index'' = None \<or> cells h a ''index'' = Some VNone \<longrightarrow>
         fst (from_pipfile_lock_entry h n a d meta) =
           Inr (new_PackageVersion n v d None hs (dict_get (cells h a) ''markers''))) \<and>
      (cells h a ''index'' = Some (VStr i) \<and> sources meta i = Some s \<longrightarrow>
         fst (from_pipfile_lock_entry h n a d meta) =
           Inr (new_PackageVersion n v d (Some s) hs (dict_get (cells h a) ''markers''))) \<and>
      (cells h a ''index'' = Some (VStr i) \<and> sources meta i = None \<longrightarrow>
         fst (from_pipfile_lock_entry h n a d meta) = Inl PipfileParseError))"
  by (auto simp: from_pipfile_lock_entry_outcome dict_get_def get_index_from_meta_def)

theorem from_pipfile_lock_entry_spec_witness:
  "fst (from_pipfile_lock_entry
          \<lparr>cells = (\<lambda>b. Map.empty) (0 := [''version'' \<mapsto> VStr ''==1.0.0'']), lim = 1\<rparr>
          ''pkg'' 0 False \<lparr>sources = Map.empty\<rparr>)
     = Inl PipfileParseError \<and>
   fst (from_pipfile_lock_entry
          \<lparr>cells = (\<lambda>b. Map.empty)
                     (0 := [''version'' \<mapsto> VStr ''==1.0.0'', ''hashes'' \<mapsto> VList [''sha256:0'']]),
           lim = 1\<rparr>
          ''pkg'' 0 False \<lparr>sources = Map.empty\<rparr>)
     = Inr (new_PackageVersion ''pkg'' (VStr ''==1.0.0'') False None (VList [''sha256:0'']) VNone) \<and>
   fst (from_pipfile_lock_entry
          \<lparr>cells = (\<lambda>b. Map.empty)
                     (0 := [''version'' \<mapsto> VStr ''==1.0.0'', ''hashes'' \<mapsto> VList [''sha256:0''],
                            ''index'' \<mapsto> VStr ''pypi'', ''markers'' \<mapsto> VStr ''python_version >= 3.6'']),
           lim = 1\<rparr>
          ''pkg'' 0 True
          \<lparr>sources = [''pypi'' \<mapsto> \<lparr>url = ''https://pypi.org/simple'', source_name = ''pypi''\<rparr>]\<rparr>)
     = Inr (new_PackageVersion ''pkg'' (VStr ''==1.0.0'') True
              (Some \<lparr>url = ''https://pypi.org/simple'', source_name = ''pypi''\<rparr>)
              (VList [''sha256:0'']) (VStr ''python_version >= 3.6''))"
proof -
  let ?h1 = "\<lparr>cells = (\<lambda>b. Map.empty) (0 := [''version'' \<mapsto> VStr ''==1.0.0'']), lim = 1\<rparr>"
  let ?h2 = "\<lparr>cells = (\<lambda>b. Map.empty)
                     (0 := [''version'' \<mapsto> VStr ''==1.0.0'', ''hashes'' \<mapsto> VList [''sha256:0'']]),
           lim = 1\<rparr>"
  let ?h3 = "\<lparr>cells = (\<lambda>b. Map.empty)
                     (0 := [''version'' \<mapsto> VStr ''==1.0.0'', ''hashes'' \<mapsto> VList [''sha256:0''],
                            ''index'' \<mapsto> VStr ''pypi'', ''markers'' \<mapsto> VStr ''python_version >= 3.6'']),
           lim = 1\<rparr>"
  let ?m0 = "\<lparr>sources = Map.empty\<rparr>"
  let ?pypi = "\<lparr>url = ''https://pypi.org/simple'', source_name = ''pypi''\<rparr>"
  let ?m1 = "\<lparr>sources = [''pypi'' \<mapsto> ?pypi]\<rparr>"
  have a1: "cells ?h1 0 ''hashes'' = None" by simp
  have a2: "cells ?h2 0 ''version'' = Some (VStr ''==1.0.0'') \<and> truthy (VStr ''==1.0.0'') \<and>
            cells ?h2 0 ''hashes'' = Some (VList [''sha256:0'']) \<and> truthy (VList [''sha256:0''])"
    by simp
  have b2: "cells ?h2 0 ''index'' = None" by simp
  have a3: "cells ?h3 0 ''version'' = Some (VStr ''==1.0.0'') \<and> truthy (VStr ''==1.0.0'') \<and>
            cells ?h3 0 ''hashes'' = Some (VList [''sha256:0'']) \<and> truthy (VList [''sha256:0''])"
    by simp
  have b3: "cells ?h3 0 ''index'' = Some (VStr ''pypi'') \<and> sources ?m1 ''pypi'' = Some ?pypi"
    by simp
  from a1 from_pipfile_lock_entry_spec [of ?h1 0 "''pkg''" False ?m0]
  have "fst (from_pipfile_lock_entry ?h1 ''pkg'' 0 False ?m0) = Inl PipfileParseError"
    by blast
  moreover
  from a2 b2 from_pipfile_lock_entry_spec
    [of ?h2 0 "''pkg''" False ?m0 "VStr ''==1.0.0''" "VList [''sha256:0'']"]
  have "fst (from_pipfile_lock_entry ?h2 ''pkg'' 0 False ?m0) =
          Inr (new_PackageVersion ''pkg'' (VStr ''==1.0.0'') False None (VList [''sha256:0''])
                 (dict_get (cells ?h2 0) ''markers''))"
    by blast
  moreover
  from a3 b3 from_pipfile_lock_entry_spec
    [of ?h3 0 "''pkg''" True ?m1 "VStr ''==1.0.0''" "VList [''sha256:0'']" "''pypi''" ?pypi]
  have "fst (from_pipfile_lock_entry ?h3 ''pkg'' 0 True ?m1) =
          Inr (new_PackageVersion ''pkg'' (VStr ''==1.0.0'') True (Some ?pypi) (VList [''sha256:0''])
                 (dict_get (cells ?h3 0) ''markers''))"
    by blast
  ultimately show ?thesis
    by (simp add: dict_get_def)
qed

text \<open>
  C10. A dictionary entry of a Pipfile with none of the keys \<^verbatim>\<open>git\<close>, \<^verbatim>\<open>hg\<close>,
  \<^verbatim>\<open>bzr\<close>, \<^verbatim>\<open>svn\<close> and without the key \<open>version\<close> makes \<^verbatim>\<open>from_pipfile_entry\<close>
  raise \<^verbatim>\<open>KeyError\<close>, not \<^verbatim>\<open>PipfileParseError\<close>; the store is as before.
\<close>

theorem from_pipfile_entry_no_version:
  assumes "cells h a ''git'' = None" and "cells h a ''hg'' = None"
    and "cells h a ''bzr'' = None" and "cells h a ''svn'' = None"
    and "cells h a ''version'' = None"
  shows "from_pipfile_entry h n (EDict a) d meta = (Inl KeyError, h)"
  using assms by (simp add: from_pipfile_entry_def uses_vcs_def dict_pop_def)

theorem from_pipfile_entry_no_version_witness:
  "from_pipfile_entry
     \<lparr>cells = (\<lambda>b. Map.empty) (0 := [''index'' \<mapsto> VStr ''pypi'']), lim = 1\<rparr>
     ''pkg'' (EDict 0) False
     \<lparr>sources = [''pypi'' \<mapsto> \<lparr>url = ''https://pypi.org/simple'', source_name = ''pypi''\<rparr>]\<rparr>
   = (Inl KeyError,
      \<lparr>cells = (\<lambda>b. Map.empty) (0 := [''index'' \<mapsto> VStr ''pypi'']), lim = 1\<rparr>)"
  by (rule from_pipfile_entry_no_version) simp_all

subsection \<open>Who owns the entry\<close>

lemma from_pipfile_lock_entry_frame:
  "b < lim h \<Longrightarrow> cells (snd (from_pipfile_lock_entry h n a d meta)) b = cells h b"
  by (auto simp: from_pipfile_lock_entry_def dict_copy_def dict_pop_def dict_pop_default_def
      split: option.splits sum.splits)

lemma from_pipfile_entry_pops:
  "\<not> uses_vcs (cells h a) \<Longrightarrow> cells h a ''version'' = Some v \<Longrightarrow>
   cells (snd (from_pipfile_entry h n (EDict a) d meta)) =
     (cells h)(a := (cells h a)(''version'' := None, ''index'' := None))"
  by (auto simp: from_pipfile_entry_def dict_pop_def dict_pop_default_def fun_eq_iff
      split: option.splits sum.splits)

text \<open>
  C8, as the specification states it: called with a dictionary, \<^verbatim>\<open>from_pipfile_entry\<close>
  removes \<open>version\<close> and \<open>index\<close> from it. An entry under version control is refused
  before anything is popped, and keeps both keys.
\<close>

theorem from_pipfile_entry_vcs_untouched:
  "from_pipfile_entry
     \<lparr>cells = (\<lambda>b. Map.empty)
                (0 := [''git'' \<mapsto> VStr ''https://example.org/pkg.git'', ''version'' \<mapsto> VStr ''*'',
                       ''index'' \<mapsto> VStr ''pypi'']),
      lim = 1\<rparr>
     ''pkg'' (EDict 0) False \<lparr>sources = Map.empty\<rparr>
   = (Inl UnsupportedConfiguration,
      \<lparr>cells = (\<lambda>b. Map.empty)
                (0 := [''git'' \<mapsto> VStr ''https://example.org/pkg.git'', ''version'' \<mapsto> VStr ''*'',
                       ''index'' \<mapsto> VStr ''pypi'']),
      lim = 1\<rparr>)"
  by (simp add: from_pipfile_entry_def uses_vcs_def)

text \<open>
  C8, amended: called with a dictionary that has none of the keys \<^verbatim>\<open>git\<close>, \<^verbatim>\<open>hg\<close>,
  \<^verbatim>\<open>bzr\<close>, \<^verbatim>\<open>svn\<close> and has the key \<open>version\<close>, \<^verbatim>\<open>from_pipfile_entry\<close> removes the
  keys \<open>version\<close> and \<open>index\<close> from the caller's dictionary, whatever its outcome,
  and changes no other key and no other object; \<^verbatim>\<open>from_pipfile_lock_entry\<close> works on
  a copy and leaves every object of the caller, the entry among them, as it was.
\<close>

theorem entry_ownership:
  "(cells h a ''git'' = None \<and> cells h a ''hg'' = None \<and> cells h a ''bzr'' = None \<and>
    cells h a ''svn'' = None \<and> cells h a ''version'' = Some v \<longrightarrow>
      cells (snd (from_pipfile_entry h n (EDict a) d meta)) a =
        (cells h a)(''version'' := None, ''index'' := None) \<and>
      (c \<noteq> a \<longrightarrow> cells (snd (from_pipfile_entry h n (EDict a) d meta)) c = cells h c)) \<and>
   (c < lim h \<longrightarrow> cells (snd (from_pipfile_lock_entry h n a d meta)) c = cells h c)"
proof (intro conjI impI)
  assume h: "cells h a ''git'' = None \<and> cells h a ''hg'' = None \<and> cells h a ''bzr'' = None \<and>
    cells h a ''svn'' = None \<and> cells h a ''version'' = Some v"
  then have nv: "\<not> uses_vcs (cells h a)" by (simp add: uses_vcs_def)
  from h have ve: "cells h a ''version'' = Some v" by simp
  show "cells (snd (from_pipfile_entry h n (EDict a) d meta)) a =
        (cells h a)(''version'' := None, ''index'' := None)"
    by (simp add: from_pipfile_entry_pops [OF nv ve])
  show "cells (snd (from_pipfile_entry h n (EDict a) d meta)) c = cells h c" if "c \<noteq> a"
    using that by (simp add: from_pipfile_entry_pops [OF nv ve])
next
  assume "c < lim h"
  then show "cells (snd (from_pipfile_lock_entry h n a d meta)) c = cells h c"
    by (rule from_pipfile_lock_entry_frame)
qed

theorem entry_ownership_witness:
  "cells (snd (from_pipfile_entry
           \<lparr>cells = (\<lambda>b. Map.empty)
                      (0 := [''version'' \<mapsto> VStr ''>=1.0'', ''index'' \<mapsto> VStr ''pypi'',
                             ''editable'' \<mapsto> VStr ''true'']),
            lim = 1\<rparr>
           ''pkg'' (EDict 0) False
           \<lparr>sources = [''pypi'' \<mapsto> \<lparr>url = ''https://pypi.org/simple'', source_name = ''pypi''\<rparr>]\<rparr>)) 0
     = [''editable'' \<mapsto> VStr ''true''] \<and>
   cells (snd (from_pipfile_lock_entry
           \<lparr>cells = (\<lambda>b. Map.empty)
                      (0 := [''version'' \<mapsto> VStr ''==1.0.0'', ''hashes'' \<mapsto> VList [''sha256:0'']]),
            lim = 1\<rparr>
           ''pkg'' 0 False \<lparr>sources = Map.empty\<rparr>)) 0
     = [''version'' \<mapsto> VStr ''==1.0.0'', ''hashes'' \<mapsto> VList [''sha256:0'']]"
proof -
  let ?h = "\<lparr>cells = (\<lambda>b. Map.empty)
                      (0 := [''version'' \<mapsto> VStr ''>=1.0'', ''index'' \<mapsto> VStr ''pypi'',
                             ''editable'' \<mapsto> VStr ''true'']),
            lim = 1\<rparr>"
  let ?m = "\<lparr>sources = [''pypi'' \<mapsto> \<lparr>url = ''https://pypi.org/simple'', source_name = ''pypi''\<rparr>]\<rparr>"
  let ?k = "\<lparr>cells = (\<lambda>b. Map.empty)
                      (0 := [''version'' \<mapsto> VStr ''==1.0.0'', ''hashes'' \<mapsto> VList [''sha256:0'']]),
            lim = 1\<rparr>"
  let ?em = "\<lparr>sources = Map.empty\<rparr>"
  have p: "cells ?h 0 ''git'' = None \<and> cells ?h 0 ''hg'' = None \<and> cells ?h 0 ''bzr'' = None \<and>
           cells ?h 0 ''svn'' = None \<and> cells ?h 0 ''version'' = Some (VStr ''>=1.0'')"
    by simp
  have q: "(0::nat) < lim ?k" by simp
  from p entry_ownership [of ?h 0 "VStr ''>=1.0''" "''pkg''" False ?m 0]
  have A: "cells (snd (from_pipfile_entry ?h ''pkg'' (EDict 0) False ?m)) 0 =
          (cells ?h 0)(''version'' := None, ''index'' := None)"
    by blast
  have B: "(cells ?h 0)(''version'' := None, ''index'' := None) = [''editable'' \<mapsto> VStr ''true'']"
    by (auto simp: fun_eq_iff)
  from q entry_ownership [of ?k 0 "VStr ''x''" "''pkg''" False ?em 0]
  have C: "cells (snd (from_pipfile_lock_entry ?k ''pkg'' 0 False ?em)) 0 = cells ?k 0"
    by blast
  have D: "cells ?k 0 = [''version'' \<mapsto> VStr ''==1.0.0'', ''hashes'' \<mapsto> VList [''sha256:0'']]"
    by simp
  show ?thesis
    by (rule conjI [OF trans [OF A B] trans [OF C D]])
qed

subsection \<open>The round trip through a lock entry\<close>

text \<open>
  C3, as the specification states it: every locked record survives the round trip. A
  locked record with the default, empty list of hashes is written (the check in
  \<^verbatim>\<open>to_pipfile_lock\<close> is commented out) and then refused by the parser. Markers
  that are the empty string are not written and come back as \<^verbatim>\<open>None\<close>; and the index
  that comes back is the one the registry holds under the name, whatever its URL.
\<close>

theorem lock_roundtrip_empty_hashes:
  "is_locked (new_PackageVersion ''pkg'' (VStr ''==1.0.0'') False None (VList []) VNone) = Inr True \<and>
   lock_roundtrip \<lparr>cells = (\<lambda>b. Map.empty), lim = 0\<rparr>
     (new_PackageVersion ''pkg'' (VStr ''==1.0.0'') False None (VList []) VNone)
     \<lparr>sources = Map.empty\<rparr>
   = Inl PipfileParseError \<and>
   lock_roundtrip \<lparr>cells = (\<lambda>b. Map.empty), lim = 0\<rparr>
     (new_PackageVersion ''pkg'' (VStr ''==1.0.0'') False None (VList [''sha256:0'']) (VStr []))
     \<lparr>sources = Map.empty\<rparr>
   = Inr (new_PackageVersion ''pkg'' (VStr ''==1.0.0'') False None (VList [''sha256:0'']) VNone) \<and>
   lock_roundtrip \<lparr>cells = (\<lambda>b. Map.empty), lim = 0\<rparr>
     (new_PackageVersion ''pkg'' (VStr ''==1.0.0'') False
        (Some \<lparr>url = ''https://a.example/simple'', source_name = ''pypi''\<rparr>)
        (VList [''sha256:0'']) VNone)
     \<lparr>sources = [''pypi'' \<mapsto> \<lparr>url = ''https://pypi.org/simple'', source_name = ''pypi''\<rparr>]\<rparr>
   = Inr (new_PackageVersion ''pkg'' (VStr ''==1.0.0'') False
            (Some \<lparr>url = ''https://pypi.org/simple'', source_name = ''pypi''\<rparr>)
            (VList [''sha256:0'']) VNone)"
  by (simp add: lock_roundtrip_def to_pipfile_lock_def is_locked_def startswith_def
        new_PackageVersion_def dict_new_def from_pipfile_lock_entry_outcome dict_get_def
        get_index_from_meta_def)

text \<open>
  C3, amended: for every locked record whose hashes are not empty, whose markers are
  \<^verbatim>\<open>None\<close> or not empty, and whose index is \<^verbatim>\<open>None\<close> or the source that the registry
  holds under the name of that index, writing the lock entry and parsing it again with
  the same name and develop flag succeeds, and the record that comes back has the name,
  version, develop flag, index, hashes and markers of the original and nothing
  memoized.
\<close>

theorem lock_roundtrip_spec:
  assumes "is_locked self = Inr True"
    and "truthy (hashes self)"
    and "markers self = VNone \<or> truthy (markers self)"
    and "index self = None \<or> (\<exists>s. index self = Some s \<and> sources meta (source_name s) = Some s)"
  shows "lock_roundtrip h self meta =
           Inr (self\<lparr>cached_semantic_version := None, cached_version_spec := None\<rparr>)"
proof -
  from assms(1) obtain s where v: "version self = VStr s" and s: "startswith s ''==''"
    by (auto simp: is_locked_True_iff)
  from s have "s \<noteq> []" by (auto simp: startswith_eqeq)
  with v have tv: "truthy (version self)" by simp
  show ?thesis
  proof (cases "index self")
    case None
    with assms(1,2,3) tv show ?thesis
      by (auto simp: lock_roundtrip_def to_pipfile_lock_def dict_new_def
            from_pipfile_lock_entry_outcome dict_get_def get_index_from_meta_def
            new_PackageVersion_def)
  next
    case (Some src)
    with assms(4) have "sources meta (source_name src) = Some src" by simp
    with Some assms(1,2,3) tv show ?thesis
      by (auto simp: lock_roundtrip_def to_pipfile_lock_def dict_new_def
            from_pipfile_lock_entry_outcome dict_get_def get_index_from_meta_def
            new_PackageVersion_def)
  qed
qed

theorem lock_roundtrip_spec_witness:
  "lock_roundtrip \<lparr>cells = (\<lambda>b. Map.empty), lim = 0\<rparr>
     \<lparr>name = ''pkg'', version = VStr ''==1.0.0'', develop = True,
      index = Some \<lparr>url = ''https://pypi.org/simple'', source_name = ''pypi''\<rparr>,
      hashes = VList [''sha256:0''], markers = VStr ''python_version >= 3.6'',
      cached_semantic_version =
        Some \<lparr>major = 1, minor = 0, patch = 0, prerelease = [], build = []\<rparr>,
      cached_version_spec = None\<rparr>
     \<lparr>sources = [''pypi'' \<mapsto> \<lparr>url = ''https://pypi.org/simple'', source_name = ''pypi''\<rparr>]\<rparr>
   = Inr \<lparr>name = ''pkg'', version = VStr ''==1.0.0'', develop = True,
          index = Some \<lparr>url = ''https://pypi.org/simple'', source_name = ''pypi''\<rparr>,
          hashes = VList [''sha256:0''], markers = VStr ''python_version >= 3.6'',
          cached_semantic_version = None, cached_version_spec = None\<rparr>"
proof -
  let ?pypi = "\<lparr>url = ''https://pypi.org/simple'', source_name = ''pypi''\<rparr>"
  let ?p = "\<lparr>name = ''pkg'', version = VStr ''==1.0.0'', develop = True,
      index = Some ?pypi,
      hashes = VList [''sha256:0''], markers = VStr ''python_version >= 3.6'',
      cached_semantic_version =
        Some \<lparr>major = 1, minor = 0, patch = 0, prerelease = [], build = []\<rparr>,
      cached_version_spec = None\<rparr>"
  let ?m = "\<lparr>sources = [''pypi'' \<mapsto> ?pypi]\<rparr>"
  have 1: "is_locked ?p = Inr True" by (simp add: is_locked_def startswith_def)
  have 2: "truthy (hashes ?p)" by simp
  have 3: "markers ?p = VNone \<or> truthy (markers ?p)" by simp
  have 4: "index ?p = None \<or> (\<exists>s. index ?p = Some s \<and> sources ?m (source_name s) = Some s)"
    by simp
  show ?thesis
    using lock_roundtrip_spec [OF 1 2 3 4, of "\<lparr>cells = (\<lambda>b. Map.empty), lim = 0\<rparr>"] by simp
qed

end
